theory Spec2Isabelle
  imports Complex_Main
begin

section \<open>SABR smile interpolation: ql/math/interpolations/sabrinterpolation.hpp\<close>

text \<open>
  The C++ type \<open>Real\<close> (a double) is modelled by the mathematical reals: every
  arithmetic operation is exact. Rounding, overflow and underflow are outside this model,
  so the properties below are the ones that rounding leaves true: which formula is
  computed, which member is written and when, inequalities that are not strict where a
  double can reach the bound, and closeness within the tolerance the property names.

  Where a library function of the C++ leaves the reals on a real argument
  (\<open>std::sqrt\<close> of a negative number, \<open>std::log\<close> of a number that is not
  positive, \<open>std::asin\<close> outside \<open>[-1, 1]\<close>, a division by zero) the C++ raises
  nothing and goes on computing with NaN or an infinity. The reals have no such value. A
  function of the model returns \<open>Inl NonFinite\<close> there. \<open>update\<close> stores such a
  result of \<open>interpolationError\<close> as \<open>NotFinite\<close> and goes on; where the
  weights, or the starting point of the optimizer, would not be finite, the model of
  \<open>update\<close> has no interpolation to go on with and returns \<open>Inl NonFinite\<close>
  itself. Every property of \<open>update\<close> below says which runs it is about.

  A member \<open>alpha_\<close> of the C++ is the field \<open>alpha_m\<close> here (a name cannot
  end in an underscore).
\<close>

subsection \<open>Errors and results\<close>

datatype error =
    Require string  \<comment> \<open>\<open>QL_REQUIRE\<close> failed: the exception with this message\<close>
  | Fail string  \<comment> \<open>\<open>QL_FAIL\<close>\<close>
  | NonFinite  \<comment> \<open>the double computed at this point is NaN or infinite\<close>
  | OutOfBounds  \<comment> \<open>a read past the end of an array (undefined behaviour in C++)\<close>

text \<open>
  What the members \<open>error_\<close> and \<open>maxError_\<close> hold: a real number, or a double
  that is NaN or infinite.
\<close>

datatype Real_value = Finite real | NotFinite

fun stored :: "error + real \<Rightarrow> error + Real_value" where
  "stored (Inr r) = Inr (Finite r)"
| "stored (Inl NonFinite) = Inr NotFinite"
| "stored (Inl e) = Inl e"

fun bindR :: "error + 'a \<Rightarrow> ('a \<Rightarrow> error + 'b) \<Rightarrow> error + 'b" where
  "bindR (Inl e) f = Inl e"
| "bindR (Inr v) f = f v"

definition std_sqrt :: "real \<Rightarrow> error + real" where
  "std_sqrt x = (if x < 0 then Inl NonFinite else Inr (sqrt x))"

definition std_log :: "real \<Rightarrow> error + real" where
  "std_log x = (if x \<le> 0 then Inl NonFinite else Inr (ln x))"

definition std_asin :: "real \<Rightarrow> error + real" where
  "std_asin x = (if x < - 1 \<or> 1 < x then Inl NonFinite else Inr (arcsin x))"

definition divide_Real :: "real \<Rightarrow> real \<Rightarrow> error + real" where
  "divide_Real a b = (if b = 0 then Inl NonFinite else Inr (a / b))"

subsection \<open>SabrParametersTransformation\<close>

definition eps1 :: real where
  "eps1 = 1 / 10000000"

definition eps2 :: real where
  "eps2 = 9999 / 10000"

definition dilationFactor :: real where
  "dilationFactor = 1 / 1000"

text \<open>
  \<open>direct\<close> and \<open>inverse\<close> (here \<open>inverse_sabr\<close>) read the entries 0 to 3
  of their argument, whatever its size, and return the member array \<open>y_\<close>, of
  size 4.
\<close>

fun direct :: "real list \<Rightarrow> error + real list" where
  "direct (x0 # x1 # x2 # x3 # rest) =
     Inr [x0 * x0 + eps1, exp (- (x1 * x1)), x2 * x2 + eps1, eps2 * sin x3]"
| "direct _ = Inl OutOfBounds"

fun inverse_sabr :: "real list \<Rightarrow> error + real list" where
  "inverse_sabr (x0 # x1 # x2 # x3 # rest) =
     bindR (std_sqrt (x0 - eps1)) (\<lambda>y0.
     bindR (std_log x1) (\<lambda>l.
     bindR (std_sqrt (- l)) (\<lambda>y1.
     bindR (std_sqrt (x2 - eps1)) (\<lambda>y2.
     bindR (std_asin (x3 / eps2)) (\<lambda>y3.
     Inr [y0, y1, y2, y3])))))"
| "inverse_sabr _ = Inl OutOfBounds"



subsection \<open>Collaborators declared outside this file\<close>

text \<open>
  Modelled from the spec: the enumeration \<open>EndCriteria::Type\<close> is declared in
  \<open>ql/math/optimization/endcriteria.hpp\<close>; this file only names its value
  \<open>None\<close> (here \<open>NoCriteria\<close>). The other values are the termination reasons the
  spec lists.
\<close>

datatype EndCriteria_Type =
    NoCriteria
  | MaxIterations
  | StationaryPoint
  | StationaryFunctionValue
  | ZeroGradientNorm
  | Unknown

text \<open>
  Modelled from the spec: the five numbers of \<open>EndCriteria(60000, 100, 1e-8, 1e-8, 1e-8)\<close>,
  an iteration cap, a stationary-point cap and three tolerances.
\<close>

record EndCriteria =
  maxIterations :: nat
  maxStationaryStateIterations :: nat
  rootEpsilon :: real
  functionEpsilon :: real
  gradientNormEpsilon :: real

text \<open>
  A cost function is an object with the two methods \<open>value\<close> and \<open>values\<close>.
  An optimization method is what its \<open>minimize(problem, endCriteria)\<close> does with the
  problem's cost function and initial value: it raises, or it returns the termination
  reason and leaves the final point in \<open>problem.currentValue()\<close>. (The constraint of
  the problem is \<open>NoConstraint\<close>, which accepts every point.)
\<close>

record CostFunction =
  cf_value :: "real list \<Rightarrow> error + real"
  cf_values :: "real list \<Rightarrow> error + real list"

type_synonym OptimizationMethod =
  "CostFunction \<Rightarrow> real list \<Rightarrow> EndCriteria \<Rightarrow> error + (EndCriteria_Type \<times> real list)"

text \<open>
  The functions and constants this file uses and does not define are parameters of the
  model: the closed-form volatility \<open>sabrVolatility(strike, forward, expiryTime, alpha,
  beta, nu, rho)\<close> and the derivative \<open>blackFormulaStdDevDerivative(strike, forward,
  stdDev)\<close>, both pure functions to \<open>Real\<close> as the spec has them; the check
  \<open>validateSabrParameters(alpha, beta, nu, rho)\<close>, which returns or raises; the
  optimizer \<open>Simplex(lambda)\<close>; the constants \<open>Null<Real>()\<close> and
  \<open>QL_MIN_REAL\<close>.
\<close>

record collaborators =
  sabrVolatility :: "real \<Rightarrow> real \<Rightarrow> real \<Rightarrow> real \<Rightarrow> real \<Rightarrow> real \<Rightarrow> real \<Rightarrow> real"
  blackFormulaStdDevDerivative :: "real \<Rightarrow> real \<Rightarrow> real \<Rightarrow> real"
  validateSabrParameters :: "real \<Rightarrow> real \<Rightarrow> real \<Rightarrow> real \<Rightarrow> error + unit"
  Simplex :: "real \<Rightarrow> OptimizationMethod"
  Null_Real :: real
  QL_MIN_REAL :: real

text \<open>
  Modelled from the spec: \<open>validateSabrParameters\<close> is defined in
  \<open>ql/termstructures/volatility/sabr.hpp\<close>. The spec has it fail when the constraints
  of the data model are violated: \<open>alpha > 0\<close>, \<open>beta\<close> in \<open>[0, 1]\<close>,
  \<open>nu \<ge> 0\<close>, \<open>rho\<close> in \<open>(-1, 1)\<close>.
\<close>

definition validateSabrParameters_spec :: "real \<Rightarrow> real \<Rightarrow> real \<Rightarrow> real \<Rightarrow> error + unit" where
  "validateSabrParameters_spec alpha beta nu rho =
     (if 0 < alpha \<and> 0 \<le> beta \<and> beta \<le> 1 \<and> 0 \<le> nu \<and> - 1 < rho \<and> rho < 1
      then Inr () else Inl (Require ''invalid SABR parameters''))"

text \<open>
  Modelled from the spec: \<open>ProjectedCostFunction\<close> is defined in
  \<open>ql/math/optimization/projectedcostfunction.hpp\<close>. \<open>project\<close> keeps the free
  components of a full vector; \<open>include\<close> (here \<open>include_fixed\<close>) rebuilds the
  full vector from a reduced one, taking each fixed component from the vector given at
  construction. A reduced vector that is too short is a read past its end. The cost of a
  reduced vector is the cost of the full vector rebuilt from it.
\<close>

fun project :: "bool list \<Rightarrow> real list \<Rightarrow> real list" where
  "project (f # fs) (p # ps) = (if f then project fs ps else p # project fs ps)"
| "project _ _ = []"

fun include_fixed :: "real list \<Rightarrow> bool list \<Rightarrow> real list \<Rightarrow> error + real list" where
  "include_fixed (p # ps) (True # fs) rs =
     bindR (include_fixed ps fs rs) (\<lambda>zs. Inr (p # zs))"
| "include_fixed (p # ps) (False # fs) (r # rs) =
     bindR (include_fixed ps fs rs) (\<lambda>zs. Inr (r # zs))"
| "include_fixed (p # ps) (False # fs) [] = Inl OutOfBounds"
| "include_fixed _ _ _ = Inr []"

definition ProjectedCostFunction :: "CostFunction \<Rightarrow> real list \<Rightarrow> bool list \<Rightarrow> CostFunction" where
  "ProjectedCostFunction costFunction fixedParameters parameterAreFixed =
     \<lparr>cf_value = (\<lambda>x. bindR (include_fixed fixedParameters parameterAreFixed x)
                     (cf_value costFunction)),
      cf_values = (\<lambda>x. bindR (include_fixed fixedParameters parameterAreFixed x)
                     (cf_values costFunction))\<rparr>"

subsection \<open>SABRCoeffHolder\<close>

text \<open>
  \<open>forward_\<close> is a reference to a number owned by the caller: the field
  \<open>forward_m\<close> is the number found there now, and the caller changing it is an
  update of this field.
\<close>

record SABRCoeffHolder =
  t_m :: real
  forward_m :: real
  alpha_m :: real
  beta_m :: real
  nu_m :: real
  rho_m :: real
  alphaIsFixed_m :: bool
  betaIsFixed_m :: bool
  nuIsFixed_m :: bool
  rhoIsFixed_m :: bool
  weights_m :: "real list"
  error_m :: Real_value
  maxError_m :: Real_value
  SABREndCriteria_m :: EndCriteria_Type

definition SABRCoeffHolder_ctor ::
  "collaborators \<Rightarrow> real \<Rightarrow> real \<Rightarrow> real \<Rightarrow> real \<Rightarrow> real \<Rightarrow> real \<Rightarrow>
   bool \<Rightarrow> bool \<Rightarrow> bool \<Rightarrow> bool \<Rightarrow> error + SABRCoeffHolder" where
  "SABRCoeffHolder_ctor E t forward alpha beta nu rho
       alphaIsFixed betaIsFixed nuIsFixed rhoIsFixed =
     (if \<not> 0 < t then Inl (Require ''expiry time must be positive'')
      else
        let alpha' = (if alpha \<noteq> Null_Real E then alpha else sqrt (2 / 10));
            alphaIsFixed' = (if alpha \<noteq> Null_Real E then alphaIsFixed else False);
            beta' = (if beta \<noteq> Null_Real E then beta else 5 / 10);
            betaIsFixed' = (if beta \<noteq> Null_Real E then betaIsFixed else False);
            nu' = (if nu \<noteq> Null_Real E then nu else sqrt (4 / 10));
            nuIsFixed' = (if nu \<noteq> Null_Real E then nuIsFixed else False);
            rho' = (if rho \<noteq> Null_Real E then rho else 0);
            rhoIsFixed' = (if rho \<noteq> Null_Real E then rhoIsFixed else False)
        in bindR (validateSabrParameters E alpha' beta' nu' rho') (\<lambda>_.
           Inr \<lparr>t_m = t, forward_m = forward,
                alpha_m = alpha', beta_m = beta', nu_m = nu', rho_m = rho',
                alphaIsFixed_m = alphaIsFixed', betaIsFixed_m = betaIsFixed',
                nuIsFixed_m = nuIsFixed', rhoIsFixed_m = rhoIsFixed',
                weights_m = [], error_m = Finite (Null_Real E),
                maxError_m = Finite (Null_Real E),
                SABREndCriteria_m = NoCriteria\<rparr>))"

subsection \<open>SABRInterpolationImpl\<close>

text \<open>
  \<open>xData\<close> is the range from \<open>xBegin_\<close> to \<open>xEnd_\<close> (the strikes) and
  \<open>yData\<close> the range that starts at \<open>yBegin_\<close> (the volatilities). They are
  members of the base class \<open>Interpolation::templateImpl\<close>, declared in
  \<open>ql/math/interpolation.hpp\<close>; its constructor is taken to store the ranges as
  they are given. The second member \<open>forward_\<close> of the class is a reference to
  the same number as the one of \<open>SABRCoeffHolder\<close>.
\<close>

record SABRInterpolationImpl = SABRCoeffHolder +
  xData :: "real list"
  yData :: "real list"
  endCriteria_m :: EndCriteria
  optMethod_m :: OptimizationMethod
  vegaWeighted_m :: bool

definition SABRInterpolationImpl_ctor ::
  "collaborators \<Rightarrow> real list \<Rightarrow> real list \<Rightarrow> real \<Rightarrow> real \<Rightarrow> real \<Rightarrow> real \<Rightarrow> real \<Rightarrow> real \<Rightarrow>
   bool \<Rightarrow> bool \<Rightarrow> bool \<Rightarrow> bool \<Rightarrow> bool \<Rightarrow> EndCriteria option \<Rightarrow> OptimizationMethod option \<Rightarrow>
   error + SABRInterpolationImpl" where
  "SABRInterpolationImpl_ctor E xs ys t forward alpha beta nu rho
       alphaIsFixed betaIsFixed nuIsFixed rhoIsFixed vegaWeighted endCriteria optMethod =
     bindR (SABRCoeffHolder_ctor E t forward alpha beta nu rho
              alphaIsFixed betaIsFixed nuIsFixed rhoIsFixed) (\<lambda>h.
       Inr ((SABRCoeffHolder.extend h
              \<lparr>xData = xs, yData = ys,
               endCriteria_m = (case endCriteria of
                   Some c \<Rightarrow> c
                 | None \<Rightarrow> \<lparr>maxIterations = 60000, maxStationaryStateIterations = 100,
                             rootEpsilon = 1 / 10 ^ 8, functionEpsilon = 1 / 10 ^ 8,
                             gradientNormEpsilon = 1 / 10 ^ 8\<rparr>),
               optMethod_m = (case optMethod of
                   Some m \<Rightarrow> m
                 | None \<Rightarrow> Simplex E (1 / 100)),
               vegaWeighted_m = vegaWeighted\<rparr>)
            \<lparr>weights_m := replicate (length xs) (1 / real (length xs))\<rparr>))"

definition valueImpl :: "collaborators \<Rightarrow> SABRInterpolationImpl \<Rightarrow> real \<Rightarrow> error + real" where
  "valueImpl E s x =
     (if \<not> 0 < x then Inl (Require ''strike must be positive'')
      else Inr (sabrVolatility E x (forward_m s) (t_m s)
                  (alpha_m s) (beta_m s) (nu_m s) (rho_m s)))"

definition primitive :: "SABRInterpolationImpl \<Rightarrow> real \<Rightarrow> error + real" where
  "primitive s x = Inl (Fail ''SABR primitive not implemented'')"

definition derivative :: "SABRInterpolationImpl \<Rightarrow> real \<Rightarrow> error + real" where
  "derivative s x = Inl (Fail ''SABR derivative not implemented'')"

definition secondDerivative :: "SABRInterpolationImpl \<Rightarrow> real \<Rightarrow> error + real" where
  "secondDerivative s x = Inl (Fail ''SABR secondDerivative not implemented'')"

text \<open>
  The loops walk the strikes from \<open>xBegin_\<close> to \<open>xEnd_\<close> and advance the
  iterators into the volatilities and the weights beside them, with no check that those
  ranges are as long.
\<close>

fun squaredError_loop ::
  "(real \<Rightarrow> error + real) \<Rightarrow> real list \<Rightarrow> real list \<Rightarrow> real list \<Rightarrow> real \<Rightarrow> error + real" where
  "squaredError_loop v [] ys ws totalError = Inr totalError"
| "squaredError_loop v (x # xs) (y # ys) (w # ws) totalError =
     bindR (v x) (\<lambda>m.
       squaredError_loop v xs ys ws (totalError + (m - y) * (m - y) * w))"
| "squaredError_loop v (x # xs) _ _ totalError = Inl OutOfBounds"

definition interpolationSquaredError :: "collaborators \<Rightarrow> SABRInterpolationImpl \<Rightarrow> error + real" where
  "interpolationSquaredError E s =
     squaredError_loop (valueImpl E s) (xData s) (yData s) (weights_m s) 0"

fun errors_loop ::
  "(real \<Rightarrow> error + real) \<Rightarrow> real list \<Rightarrow> real list \<Rightarrow> real list \<Rightarrow> error + real list" where
  "errors_loop v [] ys ws = Inr []"
| "errors_loop v (x # xs) (y # ys) (w # ws) =
     bindR (v x) (\<lambda>m.
     bindR (std_sqrt w) (\<lambda>sw.
     bindR (errors_loop v xs ys ws) (\<lambda>rs.
       Inr ((m - y) * sw # rs))))"
| "errors_loop v (x # xs) _ _ = Inl OutOfBounds"

definition interpolationErrors ::
  "collaborators \<Rightarrow> SABRInterpolationImpl \<Rightarrow> real list \<Rightarrow> error + real list" where
  "interpolationErrors E s unused =
     errors_loop (valueImpl E s) (xData s) (yData s) (weights_m s)"

text \<open>
  \<open>Size n = xEnd_ - xBegin_\<close> is unsigned (64 bits here), so \<open>n - 1\<close> wraps to
  \<open>2^64 - 1\<close> when there is no point.
\<close>

definition Size_minus_one :: "nat \<Rightarrow> nat" where
  "Size_minus_one n = (if n = 0 then 2 ^ 64 - 1 else n - 1)"

definition interpolationError :: "collaborators \<Rightarrow> SABRInterpolationImpl \<Rightarrow> error + real" where
  "interpolationError E s =
     (let n = length (xData s) in
      bindR (interpolationSquaredError E s) (\<lambda>squaredError.
      bindR (divide_Real (real n * squaredError) (real (Size_minus_one n))) std_sqrt))"

fun maxError_loop ::
  "(real \<Rightarrow> error + real) \<Rightarrow> real list \<Rightarrow> real list \<Rightarrow> real \<Rightarrow> error + real" where
  "maxError_loop v [] ys maxError = Inr maxError"
| "maxError_loop v (x # xs) (y # ys) maxError =
     bindR (v x) (\<lambda>m. maxError_loop v xs ys (max maxError \<bar>m - y\<bar>))"
| "maxError_loop v (x # xs) [] maxError = Inl OutOfBounds"

definition interpolationMaxError :: "collaborators \<Rightarrow> SABRInterpolationImpl \<Rightarrow> error + real" where
  "interpolationMaxError E s =
     maxError_loop (valueImpl E s) (xData s) (yData s) (QL_MIN_REAL E)"

subsection \<open>SABRError, the cost function\<close>

fun set_parameters :: "real list \<Rightarrow> SABRInterpolationImpl \<Rightarrow> error + SABRInterpolationImpl" where
  "set_parameters (y0 # y1 # y2 # y3 # rest) s =
     Inr (s\<lparr>alpha_m := y0, beta_m := y1, nu_m := y2, rho_m := y3\<rparr>)"
| "set_parameters _ s = Inl OutOfBounds"

text \<open>
  Both methods write \<open>direct(x)\<close> into the parameters of the interpolation and then
  evaluate it. \<open>write_parameters\<close> is the interpolation after that write.
\<close>

definition write_parameters :: "SABRInterpolationImpl \<Rightarrow> real list \<Rightarrow> error + SABRInterpolationImpl" where
  "write_parameters s x = bindR (direct x) (\<lambda>y. set_parameters y s)"

definition SABRError_value :: "collaborators \<Rightarrow> SABRInterpolationImpl \<Rightarrow> real list \<Rightarrow> error + real" where
  "SABRError_value E s x = bindR (write_parameters s x) (interpolationSquaredError E)"

definition SABRError_values :: "collaborators \<Rightarrow> SABRInterpolationImpl \<Rightarrow> real list \<Rightarrow> error + real list" where
  "SABRError_values E s x = bindR (write_parameters s x) (\<lambda>s'. interpolationErrors E s' x)"

definition SABRError :: "collaborators \<Rightarrow> SABRInterpolationImpl \<Rightarrow> CostFunction" where
  "SABRError E s = \<lparr>cf_value = SABRError_value E s, cf_values = SABRError_values E s\<rparr>"

subsection \<open>update\<close>

fun vega_loop ::
  "collaborators \<Rightarrow> real \<Rightarrow> real \<Rightarrow> real list \<Rightarrow> real list \<Rightarrow> real list \<Rightarrow> real \<Rightarrow>
   error + (real list \<times> real)" where
  "vega_loop E forward t [] ys weights weightsSum = Inr (weights, weightsSum)"
| "vega_loop E forward t (x # xs) (y # ys) weights weightsSum =
     bindR (std_sqrt (y * y * t)) (\<lambda>stdDev.
       let w = blackFormulaStdDevDerivative E x forward stdDev
       in vega_loop E forward t xs ys (weights @ [w]) (weightsSum + w))"
| "vega_loop E forward t (x # xs) [] weights weightsSum = Inl OutOfBounds"

fun normalize_loop :: "real list \<Rightarrow> real \<Rightarrow> error + real list" where
  "normalize_loop [] weightsSum = Inr []"
| "normalize_loop (w # ws) weightsSum =
     bindR (divide_Real w weightsSum) (\<lambda>w'.
     bindR (normalize_loop ws weightsSum) (\<lambda>ws'. Inr (w' # ws')))"

definition vega_weights :: "collaborators \<Rightarrow> SABRInterpolationImpl \<Rightarrow> error + real list" where
  "vega_weights E s =
     bindR (vega_loop E (forward_m s) (t_m s) (xData s) (yData s) [] 0)
       (\<lambda>(weights, weightsSum). normalize_loop weights weightsSum)"

text \<open>
  While the optimizer runs, every evaluation of the cost function overwrites the four
  parameters of the interpolation and nothing else; \<open>update\<close> overwrites them again
  after the optimizer has returned, so the cost function is built on the interpolation
  as it is when the optimizer starts. When \<open>update\<close> raises, the model keeps no
  interpolation.
\<close>

definition update :: "collaborators \<Rightarrow> SABRInterpolationImpl \<Rightarrow> error + SABRInterpolationImpl" where
  "update E s =
     (if \<not> 0 < forward_m s then Inl (Require ''forward must be positive'')
      else
        bindR (if vegaWeighted_m s then vega_weights E s else Inr (weights_m s)) (\<lambda>ws.
        let s1 = s\<lparr>weights_m := ws\<rparr> in
        if alphaIsFixed_m s1 \<and> betaIsFixed_m s1 \<and> nuIsFixed_m s1 \<and> rhoIsFixed_m s1 then
          bindR (stored (interpolationError E s1)) (\<lambda>e.
          bindR (stored (interpolationMaxError E s1)) (\<lambda>m.
            Inr (s1\<lparr>error_m := e, maxError_m := m, SABREndCriteria_m := NoCriteria\<rparr>)))
        else
          let costFunction = SABRError E s1;
              guess = [alpha_m s1, beta_m s1, nu_m s1, rho_m s1];
              parameterAreFixed =
                [alphaIsFixed_m s1, betaIsFixed_m s1, nuIsFixed_m s1, rhoIsFixed_m s1]
          in
          bindR (inverse_sabr guess) (\<lambda>inversedTransformatedGuess.
          let constrainedSABRError =
                ProjectedCostFunction costFunction inversedTransformatedGuess parameterAreFixed;
              projectedGuess = project parameterAreFixed inversedTransformatedGuess
          in
          bindR (optMethod_m s1 constrainedSABRError projectedGuess (endCriteria_m s1))
            (\<lambda>(endType, projectedResult).
          bindR (include_fixed inversedTransformatedGuess parameterAreFixed projectedResult)
            (\<lambda>transfResult.
          bindR (direct transfResult) (\<lambda>result.
          bindR (set_parameters result (s1\<lparr>SABREndCriteria_m := endType\<rparr>)) (\<lambda>s2.
          bindR (stored (interpolationError E s2)) (\<lambda>e.
          bindR (stored (interpolationMaxError E s2)) (\<lambda>m.
            Inr (s2\<lparr>error_m := e, maxError_m := m\<rparr>))))))))))"

subsection \<open>The quantities the properties are stated with\<close>

text \<open>
  The model volatility at a strike, the weighted sum of squares, the vector of weighted
  residuals and the vegas of the data points, written as formulas over the data. A smile
  is well formed when volatilities and weights are aligned with the strikes, the strikes
  are positive and the weights are not negative. The domain invariant is the four
  constraints \<open>alpha > 0\<close>, \<open>0 < beta \<le> 1\<close>, \<open>nu \<ge> 0\<close>,
  \<open>-1 < rho < 1\<close> on the stored parameters; the parameters are valid when they
  satisfy the constraints of the data model, which are these with \<open>0 \<le> beta\<close> in
  the place of \<open>0 < beta\<close>. The parameters are in the range of \<open>direct\<close>
  when \<open>inverse\<close> computes a real number from each of them. The RMS error is
  \<open>sqrt (n * SSE / (n - 1))\<close> with the \<open>n - 1\<close> of the unsigned \<open>Size\<close>,
  and no real number when \<open>n = 1\<close>; the maximal error is the largest of
  \<open>QL_MIN_REAL\<close> and the absolute residuals. The vegas are strictly positive
  when each data point has a standard deviation \<open>sqrt (y * y * t)\<close> that is a real
  number and a vega above zero.
\<close>

definition modelVol :: "collaborators \<Rightarrow> SABRInterpolationImpl \<Rightarrow> real \<Rightarrow> real" where
  "modelVol E s strike =
     sabrVolatility E strike (forward_m s) (t_m s) (alpha_m s) (beta_m s) (nu_m s) (rho_m s)"

definition spec_scalarCost :: "collaborators \<Rightarrow> SABRInterpolationImpl \<Rightarrow> real" where
  "spec_scalarCost E s =
     (\<Sum>i<length (xData s). weights_m s ! i * (modelVol E s (xData s ! i) - yData s ! i)\<^sup>2)"

definition spec_residualVector :: "collaborators \<Rightarrow> SABRInterpolationImpl \<Rightarrow> real list" where
  "spec_residualVector E s =
     map (\<lambda>i. (modelVol E s (xData s ! i) - yData s ! i) * sqrt (weights_m s ! i))
       [0..<length (xData s)]"


definition SmileData_ok :: "SABRInterpolationImpl \<Rightarrow> bool" where
  "SmileData_ok s =
     (length (yData s) = length (xData s) \<and> length (weights_m s) = length (xData s) \<and>
      list_all (\<lambda>x. 0 < x) (xData s) \<and> list_all (\<lambda>w. 0 \<le> w) (weights_m s))"



definition in_range_of_direct :: "SABRInterpolationImpl \<Rightarrow> bool" where
  "in_range_of_direct s =
     (eps1 \<le> alpha_m s \<and> 0 < beta_m s \<and> beta_m s \<le> 1 \<and> eps1 \<le> nu_m s \<and>
      - eps2 \<le> rho_m s \<and> rho_m s \<le> eps2)"






subsection \<open>An example smile\<close>

text \<open>
  Two strikes around a forward of 3 percent, both quoted at 20 percent; a volatility
  formula that returns \<open>alpha\<close>; a vega that returns the strike; an optimizer that
  gives its starting point back. \<open>Null<Real>()\<close> is the largest float and
  \<open>QL_MIN_REAL\<close> the most negative double. \<open>example_quotes\<close> is the same
  smile with the second quote at 30 percent and all four parameters fixed, so that the
  fit is not perfect.
\<close>

definition example_optimizer :: OptimizationMethod where
  "example_optimizer costFunction initialValue endCriteria = Inr (MaxIterations, initialValue)"

definition example_collaborators :: collaborators where
  "example_collaborators =
     \<lparr>sabrVolatility = (\<lambda>strike forward expiryTime alpha beta nu rho. alpha),
      blackFormulaStdDevDerivative = (\<lambda>strike forward stdDev. strike),
      validateSabrParameters = validateSabrParameters_spec,
      Simplex = (\<lambda>lambda. example_optimizer),
      Null_Real = 2 ^ 128 - 2 ^ 104,
      QL_MIN_REAL = - (2 ^ 1024 - 2 ^ 971)\<rparr>"

definition example_smile :: SABRInterpolationImpl where
  "example_smile =
     \<lparr>t_m = 1, forward_m = 3 / 100,
      alpha_m = 2 / 10, beta_m = 1, nu_m = 4 / 10, rho_m = 0,
      alphaIsFixed_m = False, betaIsFixed_m = False, nuIsFixed_m = False, rhoIsFixed_m = False,
      weights_m = [1 / 2, 1 / 2], error_m = Finite (2 ^ 128 - 2 ^ 104),
      maxError_m = Finite (2 ^ 128 - 2 ^ 104),
      SABREndCriteria_m = NoCriteria,
      xData = [2 / 100, 4 / 100], yData = [2 / 10, 2 / 10],
      endCriteria_m = \<lparr>maxIterations = 60000, maxStationaryStateIterations = 100,
        rootEpsilon = 1 / 10 ^ 8, functionEpsilon = 1 / 10 ^ 8,
        gradientNormEpsilon = 1 / 10 ^ 8\<rparr>,
      optMethod_m = example_optimizer, vegaWeighted_m = False\<rparr>"


definition example_holder :: SABRCoeffHolder where
  "example_holder =
     \<lparr>t_m = 1, forward_m = 3 / 100,
      alpha_m = 2 / 10, beta_m = 0, nu_m = 4 / 10, rho_m = 0,
      alphaIsFixed_m = True, betaIsFixed_m = True, nuIsFixed_m = True,
      rhoIsFixed_m = True, weights_m = [],
      error_m = Finite (2 ^ 128 - 2 ^ 104), maxError_m = Finite (2 ^ 128 - 2 ^ 104),
      SABREndCriteria_m = NoCriteria\<rparr>"

section \<open>Results and their composition\<close>

lemma bindR_Inr_iff: "bindR m f = Inr y \<longleftrightarrow> (\<exists>v. m = Inr v \<and> f v = Inr y)"
  by (cases m) simp_all

lemma stored_Inr_iff:
  "stored m = Inr v \<longleftrightarrow> (\<exists>r. m = Inr r \<and> v = Finite r) \<or> (m = Inl NonFinite \<and> v = NotFinite)"
  by (cases m rule: stored.cases) auto

section \<open>The parameter transformation\<close>






lemma inverse_sabr_range:
  assumes "inverse_sabr [a, b, n, r] = Inr v"
  shows "eps1 \<le> a \<and> 0 < b \<and> b \<le> 1 \<and> eps1 \<le> n \<and> - eps2 \<le> r \<and> r \<le> eps2"
proof -
  have pos: "0 < eps2" by (simp add: eps2_def)
  from assms have a: "\<not> a - eps1 < 0" and b: "0 < b" and l: "\<not> - ln b < 0"
    and n: "\<not> n - eps1 < 0" and r: "\<not> (r / eps2 < - 1 \<or> 1 < r / eps2)"
    by (auto simp: bindR_Inr_iff std_sqrt_def std_log_def std_asin_def split: if_splits)
  from b l have "b \<le> 1" by (simp add: not_less)
  moreover from r pos have "- eps2 \<le> r" "r \<le> eps2"
    by (simp_all add: not_less pos_le_divide_eq pos_divide_le_eq)
  ultimately show ?thesis using a b n by simp
qed

section \<open>Construction\<close>

lemma example_holder_ctor:
  "SABRCoeffHolder_ctor example_collaborators 1 (3 / 100)
     (2 ^ 128 - 2 ^ 104) (2 ^ 128 - 2 ^ 104) (2 ^ 128 - 2 ^ 104) (2 ^ 128 - 2 ^ 104)
     True True True True
   = Inr \<lparr>t_m = 1, forward_m = 3 / 100,
          alpha_m = sqrt (2 / 10), beta_m = 5 / 10, nu_m = sqrt (4 / 10), rho_m = 0,
          alphaIsFixed_m = False, betaIsFixed_m = False, nuIsFixed_m = False,
          rhoIsFixed_m = False, weights_m = [],
          error_m = Finite (2 ^ 128 - 2 ^ 104), maxError_m = Finite (2 ^ 128 - 2 ^ 104),
          SABREndCriteria_m = NoCriteria\<rparr>"
  by (simp add: SABRCoeffHolder_ctor_def example_collaborators_def validateSabrParameters_spec_def)

lemma example_holder_ctor_valid:
  "SABRCoeffHolder_ctor example_collaborators 1 (3 / 100) (2 / 10) 0 (4 / 10) 0
     True True True True = Inr example_holder"
  by (simp add: SABRCoeffHolder_ctor_def example_collaborators_def
      validateSabrParameters_spec_def example_holder_def)

lemma example_ctor:
  "SABRInterpolationImpl_ctor example_collaborators [2 / 100, 4 / 100] [2 / 10, 2 / 10]
     1 (3 / 100) (2 / 10) 1 (4 / 10) 0 False False False False False None None
   = Inr example_smile"
  by (simp add: SABRInterpolationImpl_ctor_def SABRCoeffHolder_ctor_def example_collaborators_def
      validateSabrParameters_spec_def example_smile_def SABRCoeffHolder.extend_def
      SABRCoeffHolder.defs SABRInterpolationImpl.defs)

text \<open>
  C9. When construction succeeds, every parameter among \<open>alpha\<close>, \<open>beta\<close>,
  \<open>nu\<close>, \<open>rho\<close> that was supplied as \<open>Null<Real>()\<close> holds its default
  guess (\<open>sqrt 0.2\<close>, \<open>0.5\<close>, \<open>sqrt 0.4\<close>, \<open>0\<close>) and is free,
  whatever the \<open>isFixed\<close> flag the caller passed for it.
\<close>

theorem ctor_null_defaults:
  assumes "SABRCoeffHolder_ctor E t forward alpha beta nu rho
             alphaIsFixed betaIsFixed nuIsFixed rhoIsFixed = Inr h"
  shows "(alpha = Null_Real E \<longrightarrow> alpha_m h = sqrt (2 / 10) \<and> \<not> alphaIsFixed_m h) \<and>
    (beta = Null_Real E \<longrightarrow> beta_m h = 5 / 10 \<and> \<not> betaIsFixed_m h) \<and>
    (nu = Null_Real E \<longrightarrow> nu_m h = sqrt (4 / 10) \<and> \<not> nuIsFixed_m h) \<and>
    (rho = Null_Real E \<longrightarrow> rho_m h = 0 \<and> \<not> rhoIsFixed_m h)"
  using assms unfolding SABRCoeffHolder_ctor_def Let_def
  by (auto simp: bindR_Inr_iff split: if_splits)

theorem ctor_null_defaults_witness:
  "Null_Real example_collaborators = 2 ^ 128 - 2 ^ 104 \<and>
   (\<exists>h. SABRCoeffHolder_ctor example_collaborators 1 (3 / 100)
          (2 ^ 128 - 2 ^ 104) (2 ^ 128 - 2 ^ 104) (2 ^ 128 - 2 ^ 104) (2 ^ 128 - 2 ^ 104)
          True True True True = Inr h \<and>
        alpha_m h = sqrt (2 / 10) \<and> \<not> alphaIsFixed_m h \<and>
        beta_m h = 5 / 10 \<and> \<not> betaIsFixed_m h \<and>
        nu_m h = sqrt (4 / 10) \<and> \<not> nuIsFixed_m h \<and>
        rho_m h = 0 \<and> \<not> rhoIsFixed_m h)"
proof -
  have n: "Null_Real example_collaborators = 2 ^ 128 - 2 ^ 104"
    by (simp add: example_collaborators_def)
  from ctor_null_defaults [OF example_holder_ctor] n example_holder_ctor
  show ?thesis by simp
qed

text \<open>
  C10. Construction succeeds only when \<open>t > 0\<close> and the stored parameters pass
  \<open>validateSabrParameters\<close>; it fails with the expiry error when \<open>t \<le> 0\<close>,
  and when \<open>t > 0\<close> and the check raises on the initial (or defaulted) parameters it
  fails with the error of the check.
\<close>

theorem ctor_validates:
  "(SABRCoeffHolder_ctor E t forward alpha beta nu rho
      alphaIsFixed betaIsFixed nuIsFixed rhoIsFixed = Inr h \<longrightarrow>
      0 < t \<and> validateSabrParameters E (alpha_m h) (beta_m h) (nu_m h) (rho_m h) = Inr ()) \<and>
   (t \<le> 0 \<longrightarrow>
      SABRCoeffHolder_ctor E t forward alpha beta nu rho
        alphaIsFixed betaIsFixed nuIsFixed rhoIsFixed
      = Inl (Require ''expiry time must be positive'')) \<and>
   (0 < t \<longrightarrow>
      validateSabrParameters E
        (if alpha \<noteq> Null_Real E then alpha else sqrt (2 / 10))
        (if beta \<noteq> Null_Real E then beta else 5 / 10)
        (if nu \<noteq> Null_Real E then nu else sqrt (4 / 10))
        (if rho \<noteq> Null_Real E then rho else 0) = Inl e \<longrightarrow>
      SABRCoeffHolder_ctor E t forward alpha beta nu rho
        alphaIsFixed betaIsFixed nuIsFixed rhoIsFixed = Inl e)"
  unfolding SABRCoeffHolder_ctor_def Let_def
  by (auto simp: bindR_Inr_iff split: if_splits)

theorem ctor_validates_witness:
  "SABRCoeffHolder_ctor example_collaborators 1 (3 / 100) (2 / 10) 0 (4 / 10) 0
     True True True True = Inr example_holder \<and>
   validateSabrParameters example_collaborators (alpha_m example_holder) (beta_m example_holder)
     (nu_m example_holder) (rho_m example_holder) = Inr () \<and>
   SABRCoeffHolder_ctor example_collaborators 0 (3 / 100) (2 / 10) 0 (4 / 10) 0
     True True True True = Inl (Require ''expiry time must be positive'') \<and>
   validateSabrParameters example_collaborators (- 1) 0 (4 / 10) 0
     = Inl (Require ''invalid SABR parameters'') \<and>
   SABRCoeffHolder_ctor example_collaborators 1 (3 / 100) (- 1) 0 (4 / 10) 0
     True True True True = Inl (Require ''invalid SABR parameters'')"
proof -
  have bad: "validateSabrParameters example_collaborators (- 1) 0 (4 / 10) 0
      = Inl (Require ''invalid SABR parameters'')"
    by (simp add: example_collaborators_def validateSabrParameters_spec_def)
  have n: "Null_Real example_collaborators = 2 ^ 128 - 2 ^ 104"
    by (simp add: example_collaborators_def)
  have 1: "validateSabrParameters example_collaborators (alpha_m example_holder)
      (beta_m example_holder) (nu_m example_holder) (rho_m example_holder) = Inr ()"
    using ctor_validates [of example_collaborators 1 "3 / 100" "2 / 10" 0 "4 / 10" 0
        True True True True example_holder] example_holder_ctor_valid
    by simp
  have 2: "SABRCoeffHolder_ctor example_collaborators 0 (3 / 100) (2 / 10) 0 (4 / 10) 0
      True True True True = Inl (Require ''expiry time must be positive'')"
    using ctor_validates [of example_collaborators 0 "3 / 100" "2 / 10" 0 "4 / 10" 0
        True True True True]
    by simp
  have 3: "SABRCoeffHolder_ctor example_collaborators 1 (3 / 100) (- 1) 0 (4 / 10) 0
      True True True True = Inl (Require ''invalid SABR parameters'')"
    using ctor_validates [of example_collaborators 1 "3 / 100" "- 1" 0 "4 / 10" 0
        True True True True _ "Require ''invalid SABR parameters''"] bad n
    by simp
  from 1 2 3 bad example_holder_ctor_valid show ?thesis by simp
qed

section \<open>Evaluation and error metrics\<close>

text \<open>
  C8. \<open>value(x)\<close> fails with the error of its \<open>QL_REQUIRE\<close> exactly when
  \<open>x \<le> 0\<close>; for every \<open>x > 0\<close> it returns \<open>sabrVolatility\<close> at the
  strike, the current forward, the stored expiry and the stored parameters.
\<close>

theorem value_strike:
  "(x \<le> 0 \<longrightarrow> valueImpl E s x = Inl (Require ''strike must be positive'')) \<and>
   (0 < x \<longrightarrow> valueImpl E s x =
      Inr (sabrVolatility E x (forward_m s) (t_m s) (alpha_m s) (beta_m s) (nu_m s) (rho_m s)))"
  by (simp add: valueImpl_def)

theorem value_strike_witness:
  "valueImpl example_collaborators example_smile 0 = Inl (Require ''strike must be positive'') \<and>
   valueImpl example_collaborators example_smile (2 / 100) = Inr (2 / 10)"
  using value_strike [of 0 example_collaborators example_smile]
    value_strike [of "2 / 100" example_collaborators example_smile]
  by (simp add: example_collaborators_def example_smile_def)

lemma valueImpl_modelVol: "0 < x \<Longrightarrow> valueImpl E s x = Inr (modelVol E s x)"
  by (simp add: valueImpl_def modelVol_def)

lemma squaredError_loop_sum:
  assumes "length xs = length ys" and "length ys = length ws"
    and "\<forall>x\<in>set xs. v x = Inr (f x)"
  shows "squaredError_loop v xs ys ws tot =
    Inr (tot + (\<Sum>i<length xs. ws ! i * (f (xs ! i) - ys ! i)\<^sup>2))"
  using assms
proof (induction xs ys ws arbitrary: tot rule: list_induct3)
  case Nil
  then show ?case by simp
next
  case (Cons x xs y ys w ws)
  then show ?case
    by (simp add: sum.lessThan_Suc_shift power2_eq_square ac_simps del: sum.lessThan_Suc)
qed

lemma errors_loop_map:
  assumes "length xs = length ys" and "length ys = length ws"
    and "\<forall>x\<in>set xs. v x = Inr (f x)" and "\<forall>w\<in>set ws. 0 \<le> w"
  shows "errors_loop v xs ys ws =
    Inr (map (\<lambda>i. (f (xs ! i) - ys ! i) * sqrt (ws ! i)) [0..<length xs])"
  using assms
proof (induction xs ys ws rule: list_induct3)
  case Nil
  then show ?case by simp
next
  case (Cons x xs y ys w ws)
  then show ?case
    by (simp add: std_sqrt_def map_upt_Suc del: upt_Suc)
qed

lemma interpolationSquaredError_spec:
  "SmileData_ok s \<Longrightarrow> interpolationSquaredError E s = Inr (spec_scalarCost E s)"
  unfolding interpolationSquaredError_def spec_scalarCost_def SmileData_ok_def
  using squaredError_loop_sum [of "xData s" "yData s" "weights_m s" "valueImpl E s" "modelVol E s" 0]
  by (simp add: valueImpl_modelVol list_all_iff)

lemma interpolationErrors_spec:
  "SmileData_ok s \<Longrightarrow> interpolationErrors E s u = Inr (spec_residualVector E s)"
  unfolding interpolationErrors_def spec_residualVector_def SmileData_ok_def
  using errors_loop_map [of "xData s" "yData s" "weights_m s" "valueImpl E s" "modelVol E s"]
  by (simp add: valueImpl_modelVol list_all_iff)

lemma write_parameters_SmileData:
  "write_parameters s u = Inr s' \<Longrightarrow> SmileData_ok s' = SmileData_ok s"
  unfolding write_parameters_def
  by (cases "(u, s)" rule: set_parameters.cases; cases u rule: direct.cases)
     (auto simp: SmileData_ok_def)

lemma spec_scalarCost_nonneg: "SmileData_ok s \<Longrightarrow> 0 \<le> spec_scalarCost E s"
  unfolding spec_scalarCost_def SmileData_ok_def
  by (intro sum_nonneg mult_nonneg_nonneg) (auto simp: list_all_iff)

lemma example_SmileData_ok: "SmileData_ok example_smile"
  by (simp add: SmileData_ok_def example_smile_def)

lemma example_one_point_ok:
  "SmileData_ok (example_smile\<lparr>weights_m := [1], xData := [2 / 100], yData := [2 / 10]\<rparr>)"
  by (simp add: SmileData_ok_def example_smile_def)

lemma example_write_parameters:
  "write_parameters example_smile [0, 0, 0, 0]
   = Inr (example_smile\<lparr>alpha_m := eps1, beta_m := 1, nu_m := eps1, rho_m := 0\<rparr>)"
  by (simp add: write_parameters_def)

text \<open>
  C5. On a well-formed smile the scalar cost is the weighted sum of squares
  \<open>\<Sum>i. w i * (modelVol (strike i) - marketVol i)\<^sup>2\<close> and the residual vector has the
  entries \<open>(modelVol (strike i) - marketVol i) * sqrt (w i)\<close>: for
  \<open>interpolationSquaredError\<close> and \<open>interpolationErrors\<close> at the stored
  parameters, and for the two methods of the cost function at the parameters
  \<open>direct(x)\<close> that they write first.
\<close>

theorem cost_is_weighted_sum_of_squares:
  assumes "SmileData_ok s"
  shows "interpolationSquaredError E s = Inr (spec_scalarCost E s) \<and>
    interpolationErrors E s u = Inr (spec_residualVector E s) \<and>
    (\<forall>s'. write_parameters s u = Inr s' \<longrightarrow>
       cf_value (SABRError E s) u = Inr (spec_scalarCost E s') \<and>
       cf_values (SABRError E s) u = Inr (spec_residualVector E s'))"
  using assms
  by (auto simp: interpolationSquaredError_spec interpolationErrors_spec SABRError_def
      SABRError_value_def SABRError_values_def write_parameters_SmileData)

theorem cost_is_weighted_sum_of_squares_witness:
  "SmileData_ok example_smile \<and>
   interpolationSquaredError example_collaborators example_smile = Inr 0 \<and>
   interpolationErrors example_collaborators example_smile [] = Inr [0, 0] \<and>
   write_parameters example_smile [0, 0, 0, 0]
     = Inr (example_smile\<lparr>alpha_m := eps1, beta_m := 1, nu_m := eps1, rho_m := 0\<rparr>) \<and>
   cf_value (SABRError example_collaborators example_smile) [0, 0, 0, 0]
     = Inr ((eps1 - 2 / 10)\<^sup>2) \<and>
   cf_values (SABRError example_collaborators example_smile) [0, 0, 0, 0]
     = Inr [(eps1 - 2 / 10) * sqrt (1 / 2), (eps1 - 2 / 10) * sqrt (1 / 2)]"
  using cost_is_weighted_sum_of_squares [OF example_SmileData_ok, of example_collaborators "[]"]
    cost_is_weighted_sum_of_squares [OF example_SmileData_ok, of example_collaborators "[0, 0, 0, 0]"]
    example_SmileData_ok example_write_parameters
  by (simp add: example_smile_def example_collaborators_def spec_scalarCost_def
      spec_residualVector_def modelVol_def lessThan_Suc numeral_2_eq_2)

text \<open>
  C6. On a well-formed smile with \<open>n \<ge> 2\<close> points \<open>interpolationError\<close>
  returns \<open>sqrt (n * SSE / (n - 1))\<close>, where \<open>SSE\<close> is the weighted sum of
  squares; with \<open>n = 1\<close> the division is by zero and no real number is returned.
\<close>

theorem rms_error:
  assumes "SmileData_ok s"
  shows "(2 \<le> length (xData s) \<longrightarrow>
      interpolationError E s =
        Inr (sqrt (real (length (xData s)) * spec_scalarCost E s / (real (length (xData s)) - 1)))) \<and>
    (length (xData s) = 1 \<longrightarrow> interpolationError E s = Inl NonFinite)"
proof -
  have sq: "interpolationSquaredError E s = Inr (spec_scalarCost E s)"
    using assms by (rule interpolationSquaredError_spec)
  have nn: "0 \<le> spec_scalarCost E s" using assms by (rule spec_scalarCost_nonneg)
  show ?thesis
  proof (intro conjI impI)
    assume n: "2 \<le> length (xData s)"
    then have d: "real (Size_minus_one (length (xData s))) = real (length (xData s)) - 1"
      by (auto simp: Size_minus_one_def)
    from n nn have "\<not> real (length (xData s)) * spec_scalarCost E s / (real (length (xData s)) - 1) < 0"
      by (simp add: not_less)
    with n d sq show "interpolationError E s =
        Inr (sqrt (real (length (xData s)) * spec_scalarCost E s / (real (length (xData s)) - 1)))"
      by (simp add: interpolationError_def divide_Real_def std_sqrt_def Let_def)
  next
    assume "length (xData s) = 1"
    with sq show "interpolationError E s = Inl NonFinite"
      by (simp add: interpolationError_def divide_Real_def Size_minus_one_def Let_def)
  qed
qed

theorem rms_error_witness:
  "SmileData_ok example_smile \<and> 2 \<le> length (xData example_smile) \<and>
   interpolationError example_collaborators example_smile = Inr 0 \<and>
   SmileData_ok (example_smile\<lparr>weights_m := [1], xData := [2 / 100], yData := [2 / 10]\<rparr>) \<and>
   length (xData (example_smile\<lparr>weights_m := [1], xData := [2 / 100], yData := [2 / 10]\<rparr>)) = 1 \<and>
   interpolationError example_collaborators
     (example_smile\<lparr>weights_m := [1], xData := [2 / 100], yData := [2 / 10]\<rparr>) = Inl NonFinite"
  using rms_error [OF example_SmileData_ok, of example_collaborators]
    rms_error [OF example_one_point_ok, of example_collaborators]
    example_SmileData_ok example_one_point_ok
  by (simp add: example_smile_def example_collaborators_def spec_scalarCost_def modelVol_def
      lessThan_Suc numeral_2_eq_2)






section \<open>Calibration\<close>











text \<open>
  The runs the model of \<open>update\<close> returns from with a free parameter are runs in
  which \<open>inverse\<close> computes a real number from each of the four parameters.
\<close>

lemma update_free_in_range:
  assumes "update E s = Inr s'"
    and free: "\<not> (alphaIsFixed_m s \<and> betaIsFixed_m s \<and> nuIsFixed_m s \<and> rhoIsFixed_m s)"
  shows "in_range_of_direct s"
proof -
  from assms obtain v where
    "inverse_sabr [alpha_m s, beta_m s, nu_m s, rho_m s] = Inr v"
    unfolding update_def Let_def
    by (auto simp: bindR_Inr_iff split: if_splits)
  from inverse_sabr_range [OF this] show ?thesis
    by (simp add: in_range_of_direct_def)
qed

























end
